theory Spec2Isabelle
  imports Main "HOL-Library.Word"
begin

unbundle bit_operations_syntax

section \<open>Data model\<close>

text \<open>
  The firmware consists of two translation units that matter here: \<^verbatim>\<open>main.c\<close>
  (the button menu) and \<^verbatim>\<open>Security.c\<close> (monitoring, sensor read-out, alert
  sequence), plus the UART1 driver. Everything the program does to the outside world
  is a call of a peripheral driver; the model records these calls, in order, in a trace.
\<close>

type_synonym uint8_t = "8 word"
type_synonym uint16_t = "16 word"
type_synonym uint32_t = "32 word"

text \<open>
  Modelled from the spec: the header \<^verbatim>\<open>GPIO.h\<close> with the macros
  \<^verbatim>\<open>EDUBASE_LED_ALL_ON\<close> and \<^verbatim>\<open>EDUBASE_LED_ALL_OFF\<close> is missing; the spec
  speaks of the bulk patterns all-on and all-off, kept symbolic here.
\<close>

datatype led_pattern = EDUBASE_LED_ALL_ON | EDUBASE_LED_ALL_OFF

text \<open>
  Modelled from the spec: the header \<^verbatim>\<open>Buzzer.h\<close> with the note constants
  \<^verbatim>\<open>A4_NOTE\<close>, \<^verbatim>\<open>G4_NOTE\<close> and the levels \<^verbatim>\<open>BUZZER_OFF\<close>,
  \<^verbatim>\<open>BUZZER_ON\<close> is missing; the spec speaks of tone A4, tone G4 and of the buzzer
  being on or off, kept symbolic here.
\<close>

datatype tone = A4_NOTE | G4_NOTE

datatype buzzer_level = BUZZER_OFF | BUZZER_ON

text \<open>One entry of the trace per interaction with a peripheral.\<close>

datatype event =
    Peripheral_Init string
  | LCD_Clear_Display
  | LCD_Set_Cursor nat nat
  | LCD_Display_String string
  | Delay1ms nat
  | LEDs_Output led_pattern
  | Note_Played tone nat
  | Buzzer_Level buzzer_level
  | UART1_Tx uint8_t
  | UART1_Rx uint8_t

text \<open>
  The machine state. Both \<^verbatim>\<open>main.c\<close> and \<^verbatim>\<open>Security.c\<close> define their own
  file-local \<^verbatim>\<open>static uint8_t system_armed\<close> and \<^verbatim>\<open>alert_active\<close>; these are
  four distinct objects, so the record has four fields. \<open>last_button_status\<close> is the
  function-local static of \<^verbatim>\<open>Menu_Controller\<close>. \<open>uart_dr\<close> is the sequence of
  values that reads of the UART1 data register will deliver (the bytes the sensor has
  still to send, each with the error bits of the register above bit 7); when it is
  empty the receive FIFO stays empty for ever.
\<close>

record machine =
  main_system_armed :: uint8_t
  main_alert_active :: uint8_t
  last_button_status :: uint8_t
  Security_system_armed :: uint8_t
  Security_alert_active :: uint8_t
  uart_dr :: "uint32_t list"
  trace :: "event list"

definition emit :: "event list \<Rightarrow> machine \<Rightarrow> machine" where
  "emit es s = s\<lparr>trace := trace s @ es\<rparr>"

section \<open>Peripheral drivers\<close>

text \<open>
  Modelled from the spec: the LCD, LED, buzzer and delay drivers are external
  collaborators whose sources are missing; each call is recorded in the trace and has no
  other effect on the machine state.
\<close>

definition EduBase_LCD_Clear_Display :: "machine \<Rightarrow> machine" where
  "EduBase_LCD_Clear_Display = emit [LCD_Clear_Display]"

definition EduBase_LCD_Set_Cursor :: "nat \<Rightarrow> nat \<Rightarrow> machine \<Rightarrow> machine" where
  "EduBase_LCD_Set_Cursor col row = emit [LCD_Set_Cursor col row]"

definition EduBase_LCD_Display_String :: "string \<Rightarrow> machine \<Rightarrow> machine" where
  "EduBase_LCD_Display_String str = emit [LCD_Display_String str]"

definition SysTick_Delay1ms :: "nat \<Rightarrow> machine \<Rightarrow> machine" where
  "SysTick_Delay1ms ms = emit [Delay1ms ms]"

definition EduBase_LEDs_Output :: "led_pattern \<Rightarrow> machine \<Rightarrow> machine" where
  "EduBase_LEDs_Output p = emit [LEDs_Output p]"

definition Play_Note :: "tone \<Rightarrow> nat \<Rightarrow> machine \<Rightarrow> machine" where
  "Play_Note n ms = emit [Note_Played n ms]"

definition Buzzer_Output :: "buzzer_level \<Rightarrow> machine \<Rightarrow> machine" where
  "Buzzer_Output b = emit [Buzzer_Level b]"

subsection \<open>UART1 (UART1.c)\<close>

text \<open>
  \<^verbatim>\<open>UART1_Input_Character\<close> spins while the receive FIFO is empty and then returns
  \<^verbatim>\<open>(char)(UART1->DR & 0xFF)\<close>. With no data left the spin never ends: the result
  \<open>None\<close>. The caller stores the \<^verbatim>\<open>char\<close> in a \<^verbatim>\<open>uint8_t\<close>, so the value is
  the low byte whatever the signedness of \<^verbatim>\<open>char\<close>.
\<close>

definition UART1_Input_Character :: "machine \<Rightarrow> (uint8_t \<times> machine) option" where
  "UART1_Input_Character s =
     (case uart_dr s of
        [] \<Rightarrow> None
      | dr # rest \<Rightarrow>
          (let c = (ucast (dr AND 0xFF) :: uint8_t)
           in Some (c, emit [UART1_Rx c] (s\<lparr>uart_dr := rest\<rparr>))))"

text \<open>
  \<^verbatim>\<open>UART1_Output_Character\<close> spins while the transmit FIFO is full and then writes the
  data register. The transmitter drains its FIFO by itself, so the write always happens.
\<close>

definition UART1_Output_Character :: "uint8_t \<Rightarrow> machine \<Rightarrow> machine" where
  "UART1_Output_Character data = emit [UART1_Tx data]"

section \<open>Security.c\<close>

definition READ_DISTANCE :: uint8_t where
  "READ_DISTANCE = 0x55"

text \<open>
  \<^verbatim>\<open>(high_byte << 8) | low_byte\<close> is computed in \<^verbatim>\<open>int\<close> (32 bits) after the
  integer promotions and then converted to \<^verbatim>\<open>uint16_t\<close>.
\<close>

definition Get_Distance :: "machine \<Rightarrow> (uint16_t \<times> machine) option" where
  "Get_Distance s =
     (let s1 = UART1_Output_Character READ_DISTANCE s in
      case UART1_Input_Character s1 of
        None \<Rightarrow> None
      | Some (high_byte, s2) \<Rightarrow>
          (case UART1_Input_Character s2 of
             None \<Rightarrow> None
           | Some (low_byte, s3) \<Rightarrow>
               (let distance =
                      (ucast (push_bit 8 (ucast high_byte :: uint32_t) OR (ucast low_byte :: uint32_t))
                         :: uint16_t)
                in Some (distance, s3))))"

definition Display_Main_Menu :: "machine \<Rightarrow> machine" where
  "Display_Main_Menu s =
     (let s1 = EduBase_LCD_Clear_Display s;
          s2 = EduBase_LCD_Set_Cursor 0 0 s1;
          s3 = EduBase_LCD_Display_String ''Arm System'' s2;
          s4 = EduBase_LCD_Set_Cursor 0 1 s3;
          s5 = EduBase_LCD_Display_String ''Disarm System'' s4
      in s5)"

definition Display_Status :: "string \<Rightarrow> machine \<Rightarrow> machine" where
  "Display_Status message s =
     (let s1 = EduBase_LCD_Clear_Display s;
          s2 = EduBase_LCD_Set_Cursor 0 0 s1;
          s3 = EduBase_LCD_Display_String message s2;
          s4 = SysTick_Delay1ms 3000 s3
      in s4)"

text \<open>One pass through the body of the \<^verbatim>\<open>for\<close> loop of \<^verbatim>\<open>Intruder_Alert\<close>.\<close>

definition Intruder_Alert_body :: "machine \<Rightarrow> machine" where
  "Intruder_Alert_body s =
     (let s1 = EduBase_LEDs_Output EDUBASE_LED_ALL_ON s;
          s2 = Play_Note A4_NOTE 50 s1;
          s3 = SysTick_Delay1ms 250 s2;
          s4 = EduBase_LEDs_Output EDUBASE_LED_ALL_OFF s3;
          s5 = Play_Note G4_NOTE 50 s4;
          s6 = SysTick_Delay1ms 250 s5
      in s6)"

text \<open>\<^verbatim>\<open>for (int i = 0; i < 10; i++)\<close>, entered with the current value of \<open>i\<close>.\<close>

function Intruder_Alert_loop :: "int \<Rightarrow> machine \<Rightarrow> machine" where
  "Intruder_Alert_loop i s =
     (if i < 10 then Intruder_Alert_loop (i + 1) (Intruder_Alert_body s) else s)"
  by pat_completeness auto
termination
  by (relation "measure (\<lambda>(i, s). nat (10 - i))") auto

declare Intruder_Alert_loop.simps [simp del]

definition Intruder_Alert :: "machine \<Rightarrow> machine" where
  "Intruder_Alert s =
     (let s1 = EduBase_LCD_Clear_Display s;
          s2 = EduBase_LCD_Set_Cursor 0 0 s1;
          s3 = EduBase_LCD_Display_String ''Intruder'' s2;
          s4 = EduBase_LCD_Set_Cursor 0 1 s3;
          s5 = EduBase_LCD_Display_String ''Detected'' s4;
          s6 = SysTick_Delay1ms 3000 s5;
          s7 = Intruder_Alert_loop 0 s6;
          s8 = s7\<lparr>Security_alert_active := 0\<rparr>;
          s9 = s8\<lparr>Security_system_armed := 0\<rparr>;
          s10 = EduBase_LEDs_Output EDUBASE_LED_ALL_OFF s9;
          s11 = Buzzer_Output BUZZER_OFF s10;
          s12 = Display_Main_Menu s11
      in s12)"

text \<open>
  The \<^verbatim>\<open>while\<close> loop of \<^verbatim>\<open>System_Armed\<close>. It reads the \<^verbatim>\<open>Security.c\<close>
  copies of the two flags. A pass that blocks in \<^verbatim>\<open>Get_Distance\<close> never returns:
  \<open>None\<close>. Every pass that returns has taken two values from \<open>uart_dr\<close>, which is
  the termination measure.
\<close>

function System_Armed_loop :: "machine \<Rightarrow> machine option" where
  "System_Armed_loop s =
     (if Security_system_armed s \<noteq> 0 \<and> Security_alert_active s = 0 then
        (case Get_Distance s of
           None \<Rightarrow> None
         | Some (distance, s1) \<Rightarrow>
             (let s2 = (if 0 < distance \<and> distance \<le> 50
                        then Intruder_Alert (s1\<lparr>Security_alert_active := 1\<rparr>)
                        else s1);
                  s3 = SysTick_Delay1ms 100 s2
              in System_Armed_loop s3))
      else Some s)"
  by pat_completeness auto
termination
proof (relation "measure (\<lambda>s. length (uart_dr s))")
  show "wf (measure (\<lambda>s. length (uart_dr s)))"
    by simp
next
  fix s :: machine and x2 :: "uint16_t \<times> machine" and distance s1 s2 s3
  assume get: "Get_Distance s = Some x2" and x2: "(distance, s1) = x2"
    and s2: "s2 = (if 0 < distance \<and> distance \<le> 50
                   then Intruder_Alert (s1\<lparr>Security_alert_active := 1\<rparr>) else s1)"
    and s3: "s3 = SysTick_Delay1ms 100 s2"
  have loop: "uart_dr (Intruder_Alert_loop i t) = uart_dr t" for i t
  proof (induction i t rule: Intruder_Alert_loop.induct)
    case (1 i t)
    show ?case
    proof (cases "i < 10")
      case True
      with 1 show ?thesis
        by (subst Intruder_Alert_loop.simps)
           (simp add: Intruder_Alert_body_def EduBase_LEDs_Output_def Play_Note_def
              SysTick_Delay1ms_def emit_def)
    next
      case False
      then show ?thesis
        by (subst Intruder_Alert_loop.simps) simp
    qed
  qed
  have alert: "uart_dr (Intruder_Alert t) = uart_dr t" for t
    by (simp add: Intruder_Alert_def Display_Main_Menu_def EduBase_LCD_Clear_Display_def
          EduBase_LCD_Set_Cursor_def EduBase_LCD_Display_String_def SysTick_Delay1ms_def
          EduBase_LEDs_Output_def Buzzer_Output_def emit_def Let_def loop)
  from get x2 have "length (uart_dr s1) < length (uart_dr s)"
    by (auto simp: Get_Distance_def UART1_Input_Character_def UART1_Output_Character_def
          emit_def Let_def split: list.splits)
  with s2 s3 show "(s3, s) \<in> measure (\<lambda>s. length (uart_dr s))"
    by (simp add: SysTick_Delay1ms_def emit_def alert)
qed

declare System_Armed_loop.simps [simp del]

definition System_Armed :: "machine \<Rightarrow> machine option" where
  "System_Armed s =
     (let s0 = s\<lparr>Security_alert_active := 0\<rparr> in
      case System_Armed_loop s0 of
        None \<Rightarrow> None
      | Some s1 \<Rightarrow>
          Some (if Security_system_armed s1 = 0 then Display_Main_Menu s1 else s1))"

section \<open>main.c\<close>

text \<open>
  \<^verbatim>\<open>Menu_Controller\<close> reads and writes the \<^verbatim>\<open>main.c\<close> copy of \<^verbatim>\<open>system_armed\<close>.
  It returns \<open>None\<close> when the call of \<^verbatim>\<open>System_Armed\<close> never returns.
\<close>

definition Menu_Controller :: "uint8_t \<Rightarrow> machine \<Rightarrow> machine option" where
  "Menu_Controller button_status s =
     (if button_status \<noteq> last_button_status s then
        (let s0 = s\<lparr>last_button_status := button_status\<rparr> in
         if button_status = 0x08 then
           (if main_system_armed s0 = 0 then
              (let s1 = s0\<lparr>main_system_armed := 1\<rparr>;
                   s2 = Display_Status ''System Armed'' s1
               in case System_Armed s2 of
                    None \<Rightarrow> None
                  | Some s3 \<Rightarrow> Some (Display_Main_Menu s3))
            else
              (let s1 = Display_Status ''Already Armed'' s0
               in Some (Display_Main_Menu s1)))
         else if button_status = 0x04 then
           (if main_system_armed s0 \<noteq> 0 then
              (let s1 = s0\<lparr>main_system_armed := 0\<rparr>;
                   s2 = Display_Status ''System Disarmed'' s1
               in Some (Display_Main_Menu s2))
            else
              (let s1 = Display_Status ''Already Disarmed'' s0
               in Some (Display_Main_Menu s1)))
         else if button_status = 0x01 then
           Some (Intruder_Alert s0)
         else if button_status = 0x02 then
           (let s1 = EduBase_LCD_Clear_Display s0;
                s2 = Display_Main_Menu s1;
                s3 = SysTick_Delay1ms 20 s2
            in Some s3)
         else Some s0)
      else Some s)"

text \<open>
  The start of \<^verbatim>\<open>main\<close> up to the endless loop: all statics are zero-initialised, the
  peripherals are set up, the menu is drawn and the LEDs are switched off. The parameter
  is what the sensor will answer during the run.
\<close>

definition main_init :: "uint32_t list \<Rightarrow> machine" where
  "main_init sensor =
     (let s0 = \<lparr>main_system_armed = 0, main_alert_active = 0, last_button_status = 0,
                Security_system_armed = 0, Security_alert_active = 0,
                uart_dr = sensor, trace = []\<rparr>;
          s1 = emit [Peripheral_Init ''SysTick_Delay'', Peripheral_Init ''EduBase_LCD'',
                     Peripheral_Init ''EduBase_LEDs'', Peripheral_Init ''EduBase_Button'',
                     Peripheral_Init ''Buzzer'', Peripheral_Init ''UART1''] s0;
          s2 = SysTick_Delay1ms 100 s1;
          s3 = Display_Main_Menu s2;
          s4 = EduBase_LEDs_Output EDUBASE_LED_ALL_OFF s3
      in s4)"

text \<open>
  One pass through the body of \<^verbatim>\<open>while (1)\<close> in \<^verbatim>\<open>main\<close>, where
  \<^verbatim>\<open>Get_EduBase_Button_Status\<close> returns \<open>edubase_button_status\<close>.
\<close>

definition main_loop_body :: "uint8_t \<Rightarrow> machine \<Rightarrow> machine option" where
  "main_loop_body edubase_button_status s =
     (case Menu_Controller edubase_button_status s of
        None \<Rightarrow> None
      | Some s1 \<Rightarrow> Some (SysTick_Delay1ms 10 s1))"

text \<open>The states in which the endless loop of \<^verbatim>\<open>main\<close> can begin a pass.\<close>

inductive reachable :: "machine \<Rightarrow> bool" where
  reachable_init: "reachable (main_init sensor)"
| reachable_step: "reachable s \<Longrightarrow> main_loop_body b s = Some s' \<Longrightarrow> reachable s'"

text \<open>The same, for a given list of successive button readings.\<close>

fun main_loop :: "uint8_t list \<Rightarrow> machine \<Rightarrow> machine option" where
  "main_loop [] s = Some s"
| "main_loop (b # bs) s =
     (case main_loop_body b s of None \<Rightarrow> None | Some s' \<Rightarrow> main_loop bs s')"

section \<open>Observations on traces\<close>

text \<open>
  Only \<^verbatim>\<open>Intruder_Alert\<close> writes the text \<^verbatim>\<open>Intruder\<close> to the display, once per
  call, and only \<^verbatim>\<open>Get_Distance\<close> transmits on UART1, one command byte per call.
\<close>

definition alert_count :: "event list \<Rightarrow> nat" where
  "alert_count tr = length (filter (\<lambda>e. e = LCD_Display_String ''Intruder'') tr)"

definition poll_count :: "event list \<Rightarrow> nat" where
  "poll_count tr = length (filter (\<lambda>e. e = UART1_Tx READ_DISTANCE) tr)"

text \<open>The events of the menu, of a status message and of the alert sequence.\<close>

definition main_menu_events :: "event list" where
  "main_menu_events =
     [LCD_Clear_Display, LCD_Set_Cursor 0 0, LCD_Display_String ''Arm System'',
      LCD_Set_Cursor 0 1, LCD_Display_String ''Disarm System'']"

definition status_events :: "string \<Rightarrow> event list" where
  "status_events message =
     [LCD_Clear_Display, LCD_Set_Cursor 0 0, LCD_Display_String message, Delay1ms 3000]"

definition alert_cycle_events :: "event list" where
  "alert_cycle_events =
     [LEDs_Output EDUBASE_LED_ALL_ON, Note_Played A4_NOTE 50, Delay1ms 250,
      LEDs_Output EDUBASE_LED_ALL_OFF, Note_Played G4_NOTE 50, Delay1ms 250]"

definition alert_events :: "event list" where
  "alert_events =
     [LCD_Clear_Display, LCD_Set_Cursor 0 0, LCD_Display_String ''Intruder'',
      LCD_Set_Cursor 0 1, LCD_Display_String ''Detected'', Delay1ms 3000]
     @ concat (replicate 10 alert_cycle_events)
     @ [LEDs_Output EDUBASE_LED_ALL_OFF, Buzzer_Level BUZZER_OFF]
     @ main_menu_events"

section \<open>Auxiliary facts\<close>

subsection \<open>Byte assembly\<close>

lemma assemble_16:
  "(ucast (push_bit 8 (ucast (h::8 word) :: 32 word) OR (ucast (l::8 word) :: 32 word)) :: 16 word)
     = push_bit 8 (ucast h) OR ucast l"
  by (rule bit_word_eqI) (auto simp: bit_simps)

lemma assemble_16_unat:
  "unat (push_bit 8 (ucast (h::8 word)) OR ucast (l::8 word) :: 16 word) = 256 * unat h + unat l"
proof -
  have "(push_bit 8 (ucast h) OR ucast l :: 16 word) = word_cat h l"
    by (simp add: word_cat_eq_push_bit_or)
  also have "\<dots> = push_bit 8 (ucast h) + ucast l"
    by (simp add: word_cat_eq)
  finally have e: "(push_bit 8 (ucast h) OR ucast l :: 16 word) = push_bit 8 (ucast h) + ucast l" .
  have hb: "unat h < 256" using unsigned_less [of h] by (simp del: unsigned_less)
  have lb: "unat l < 256" using unsigned_less [of l] by (simp del: unsigned_less)
  have "unat (push_bit 8 (ucast h) + ucast l :: 16 word) = (256 * unat h + unat l) mod 65536"
    by (simp add: unat_word_ariths unsigned_push_bit_eq unsigned_ucast_eq push_bit_eq_mult take_bit_eq_mod mod_simps mult.commute)
  also have "\<dots> = 256 * unat h + unat l" using hb lb by simp
  finally show ?thesis using e by simp
qed

subsection \<open>The trace and the frame of each operation\<close>

lemma emit_fields [simp]:
  "main_system_armed (emit es s) = main_system_armed s"
  "main_alert_active (emit es s) = main_alert_active s"
  "last_button_status (emit es s) = last_button_status s"
  "Security_system_armed (emit es s) = Security_system_armed s"
  "Security_alert_active (emit es s) = Security_alert_active s"
  "uart_dr (emit es s) = uart_dr s"
  "trace (emit es s) = trace s @ es"
  by (simp_all add: emit_def)

lemma emit_emit [simp]: "emit b (emit a s) = emit (a @ b) s"
  by (simp add: emit_def)

lemma emit_update [simp]:
  "emit es (s\<lparr>main_system_armed := a\<rparr>) = (emit es s)\<lparr>main_system_armed := a\<rparr>"
  "emit es (s\<lparr>last_button_status := b\<rparr>) = (emit es s)\<lparr>last_button_status := b\<rparr>"
  "emit es (s\<lparr>Security_system_armed := c\<rparr>) = (emit es s)\<lparr>Security_system_armed := c\<rparr>"
  "emit es (s\<lparr>Security_alert_active := d\<rparr>) = (emit es s)\<lparr>Security_alert_active := d\<rparr>"
  "emit es (s\<lparr>uart_dr := q\<rparr>) = (emit es s)\<lparr>uart_dr := q\<rparr>"
  by (simp_all add: emit_def)

lemma Get_Distance_short:
  "length (uart_dr s) < 2 \<Longrightarrow> Get_Distance s = None"
  by (cases "uart_dr s"; cases "tl (uart_dr s)")
     (auto simp: Get_Distance_def UART1_Input_Character_def UART1_Output_Character_def
        emit_def Let_def split: list.splits)

lemma Get_Distance_two:
  "Get_Distance (s\<lparr>uart_dr := d1 # d2 # rest\<rparr>) =
     Some (push_bit 8 (ucast (ucast (d1 AND 0xFF) :: uint8_t)) OR ucast (ucast (d2 AND 0xFF) :: uint8_t),
           s\<lparr>uart_dr := rest,
              trace := trace s @ [UART1_Tx 0x55, UART1_Rx (ucast (d1 AND 0xFF)), UART1_Rx (ucast (d2 AND 0xFF))]\<rparr>)"
  by (simp add: Get_Distance_def UART1_Input_Character_def UART1_Output_Character_def
        READ_DISTANCE_def emit_def Let_def assemble_16)

lemma Display_Main_Menu_emit: "Display_Main_Menu s = emit main_menu_events s"
  by (simp add: Display_Main_Menu_def main_menu_events_def EduBase_LCD_Clear_Display_def
        EduBase_LCD_Set_Cursor_def EduBase_LCD_Display_String_def Let_def)

lemma Display_Status_emit: "Display_Status message s = emit (status_events message) s"
  by (simp add: Display_Status_def status_events_def EduBase_LCD_Clear_Display_def
        EduBase_LCD_Set_Cursor_def EduBase_LCD_Display_String_def SysTick_Delay1ms_def Let_def)

lemma Intruder_Alert_body_emit: "Intruder_Alert_body s = emit alert_cycle_events s"
  by (simp add: Intruder_Alert_body_def alert_cycle_events_def EduBase_LEDs_Output_def
        Play_Note_def SysTick_Delay1ms_def Let_def)

lemma Intruder_Alert_loop_emit:
  "Intruder_Alert_loop i s = emit (concat (replicate (nat (10 - i)) alert_cycle_events)) s"
proof (induction i s rule: Intruder_Alert_loop.induct)
  case (1 i s)
  show ?case
  proof (cases "i < 10")
    case True
    then have n: "nat (10 - i) = Suc (nat (10 - (i + 1)))"
      by simp
    have "Intruder_Alert_loop i s = Intruder_Alert_loop (i + 1) (Intruder_Alert_body s)"
      using True by (subst Intruder_Alert_loop.simps) simp
    also have "\<dots> = emit (concat (replicate (nat (10 - (i + 1))) alert_cycle_events))
                        (emit alert_cycle_events s)"
      using 1 [OF True] by (simp only: Intruder_Alert_body_emit)
    also have "\<dots> = emit (concat (replicate (nat (10 - i)) alert_cycle_events)) s"
      by (simp only: n emit_emit replicate.simps concat.simps)
    finally show ?thesis .
  next
    case False
    then show ?thesis
      by (subst Intruder_Alert_loop.simps) (simp add: emit_def)
  qed
qed

lemma Intruder_Alert_eq:
  "Intruder_Alert s =
     s\<lparr>Security_system_armed := 0, Security_alert_active := 0, trace := trace s @ alert_events\<rparr>"
  by (simp add: Intruder_Alert_def Intruder_Alert_loop_emit Display_Main_Menu_emit
        EduBase_LCD_Clear_Display_def EduBase_LCD_Set_Cursor_def EduBase_LCD_Display_String_def
        SysTick_Delay1ms_def EduBase_LEDs_Output_def Buzzer_Output_def alert_events_def Let_def
        emit_def)

lemma System_Armed_loop_idle:
  "Security_system_armed s = 0 \<Longrightarrow> System_Armed_loop s = Some s"
  by (subst System_Armed_loop.simps) simp

lemma System_Armed_idle:
  "Security_system_armed s = 0 \<Longrightarrow>
     System_Armed s = Some (Display_Main_Menu (s\<lparr>Security_alert_active := 0\<rparr>))"
  by (simp add: System_Armed_def System_Armed_loop_idle)

lemma Get_Distance_frame:
  "Get_Distance s = Some (d, s') \<Longrightarrow>
     last_button_status s' = last_button_status s \<and>
     main_system_armed s' = main_system_armed s \<and>
     main_alert_active s' = main_alert_active s"
  by (auto simp: Get_Distance_def UART1_Input_Character_def UART1_Output_Character_def
        emit_def Let_def split: list.splits)

lemma System_Armed_loop_frame:
  "System_Armed_loop s = Some s' \<Longrightarrow>
     last_button_status s' = last_button_status s \<and>
     main_system_armed s' = main_system_armed s \<and>
     main_alert_active s' = main_alert_active s"
proof (induction s rule: System_Armed_loop.induct)
  case (1 s)
  show ?case
  proof (cases "Security_system_armed s \<noteq> 0 \<and> Security_alert_active s = 0")
    case False
    with "1.prems" show ?thesis
      by (subst (asm) System_Armed_loop.simps) auto
  next
    case True
    with "1.prems" obtain distance s1 where
      g: "Get_Distance s = Some (distance, s1)" and
      r: "System_Armed_loop
            (SysTick_Delay1ms 100
              (if 0 < distance \<and> distance \<le> 50
               then Intruder_Alert (s1\<lparr>Security_alert_active := 1\<rparr>) else s1)) = Some s'"
      by (subst (asm) System_Armed_loop.simps) (auto simp: Let_def split: option.splits)
    from "1.IH" [OF True g refl refl refl r] Get_Distance_frame [OF g]
    show ?thesis
      by (simp add: SysTick_Delay1ms_def Intruder_Alert_eq split: if_splits)
  qed
qed

lemma System_Armed_frame:
  "System_Armed s = Some s' \<Longrightarrow>
     last_button_status s' = last_button_status s \<and>
     main_system_armed s' = main_system_armed s \<and>
     main_alert_active s' = main_alert_active s"
  by (auto simp: System_Armed_def Display_Main_Menu_emit Let_def
        dest!: System_Armed_loop_frame split: option.splits if_splits)

lemma Menu_Controller_last:
  "Menu_Controller b s = Some s' \<Longrightarrow> last_button_status s' = b"
  by (auto simp: Menu_Controller_def Display_Main_Menu_emit Display_Status_emit Intruder_Alert_eq
        EduBase_LCD_Clear_Display_def SysTick_Delay1ms_def Let_def
        dest!: System_Armed_frame split: option.splits if_splits)

lemma Menu_Controller_same:
  "b = last_button_status s \<Longrightarrow> Menu_Controller b s = Some s"
  by (simp add: Menu_Controller_def)

lemma Menu_Controller_arm:
  "last_button_status s \<noteq> 8 \<Longrightarrow> main_system_armed s = 0 \<Longrightarrow> Security_system_armed s = 0 \<Longrightarrow>
     Menu_Controller 8 s =
       Some (s\<lparr>main_system_armed := 1, last_button_status := 8, Security_alert_active := 0,
               trace := trace s @ status_events ''System Armed'' @ main_menu_events @ main_menu_events\<rparr>)"
  by (simp add: Menu_Controller_def Let_def Display_Status_emit System_Armed_idle
        Display_Main_Menu_emit emit_def)

lemma Menu_Controller_already_armed:
  "last_button_status s \<noteq> 8 \<Longrightarrow> main_system_armed s \<noteq> 0 \<Longrightarrow>
     Menu_Controller 8 s =
       Some (s\<lparr>last_button_status := 8,
               trace := trace s @ status_events ''Already Armed'' @ main_menu_events\<rparr>)"
  by (simp add: Menu_Controller_def Let_def Display_Status_emit Display_Main_Menu_emit emit_def)

lemma Menu_Controller_disarm:
  "last_button_status s \<noteq> 4 \<Longrightarrow> main_system_armed s \<noteq> 0 \<Longrightarrow>
     Menu_Controller 4 s =
       Some (s\<lparr>main_system_armed := 0, last_button_status := 4,
               trace := trace s @ status_events ''System Disarmed'' @ main_menu_events\<rparr>)"
  by (simp add: Menu_Controller_def Let_def Display_Status_emit Display_Main_Menu_emit emit_def)

lemma Menu_Controller_already_disarmed:
  "last_button_status s \<noteq> 4 \<Longrightarrow> main_system_armed s = 0 \<Longrightarrow>
     Menu_Controller 4 s =
       Some (s\<lparr>last_button_status := 4,
               trace := trace s @ status_events ''Already Disarmed'' @ main_menu_events\<rparr>)"
  by (simp add: Menu_Controller_def Let_def Display_Status_emit Display_Main_Menu_emit emit_def)

lemma Menu_Controller_trigger:
  "last_button_status s \<noteq> 1 \<Longrightarrow>
     Menu_Controller 1 s =
       Some (s\<lparr>last_button_status := 1, Security_system_armed := 0, Security_alert_active := 0,
               trace := trace s @ alert_events\<rparr>)"
  by (simp add: Menu_Controller_def Let_def Intruder_Alert_eq)

lemma Menu_Controller_redraw:
  "last_button_status s \<noteq> 2 \<Longrightarrow>
     Menu_Controller 2 s =
       Some (s\<lparr>last_button_status := 2,
               trace := trace s @ [LCD_Clear_Display] @ main_menu_events @ [Delay1ms 20]\<rparr>)"
  by (simp add: Menu_Controller_def Let_def Display_Main_Menu_emit EduBase_LCD_Clear_Display_def
        SysTick_Delay1ms_def emit_def)

lemma Menu_Controller_other:
  "b \<noteq> last_button_status s \<Longrightarrow> b \<noteq> 1 \<Longrightarrow> b \<noteq> 2 \<Longrightarrow> b \<noteq> 4 \<Longrightarrow> b \<noteq> 8 \<Longrightarrow>
     Menu_Controller b s = Some (s\<lparr>last_button_status := b\<rparr>)"
  by (simp add: Menu_Controller_def Let_def)

lemma alert_count_append [simp]: "alert_count (a @ b) = alert_count a + alert_count b"
  by (simp add: alert_count_def)

lemma poll_count_append [simp]: "poll_count (a @ b) = poll_count a + poll_count b"
  by (simp add: poll_count_def)

lemma alert_count_Cons [simp]:
  "alert_count [] = 0"
  "alert_count (e # es) = (if e = LCD_Display_String ''Intruder'' then 1 else 0) + alert_count es"
  by (simp_all add: alert_count_def)

lemma poll_count_Cons [simp]:
  "poll_count [] = 0"
  "poll_count (e # es) = (if e = UART1_Tx READ_DISTANCE then 1 else 0) + poll_count es"
  by (simp_all add: poll_count_def)

lemma alert_count_cycles: "alert_count (concat (replicate n alert_cycle_events)) = 0"
  by (induction n) (simp_all add: alert_count_def alert_cycle_events_def)

lemma poll_count_cycles: "poll_count (concat (replicate n alert_cycle_events)) = 0"
  by (induction n) (simp_all add: poll_count_def alert_cycle_events_def)

lemma alert_count_simps [simp]:
  "alert_count main_menu_events = 0"
  "alert_count (status_events ''System Armed'') = 0"
  "alert_count (status_events ''Already Armed'') = 0"
  "alert_count (status_events ''System Disarmed'') = 0"
  "alert_count (status_events ''Already Disarmed'') = 0"
  "alert_count [LCD_Clear_Display] = 0"
  "alert_count [Delay1ms n] = 0"
  by (simp_all add: alert_count_def main_menu_events_def status_events_def)

lemma alert_count_alert_events [simp]: "alert_count alert_events = 1"
  unfolding alert_events_def alert_count_append alert_count_cycles
  by (simp add: alert_count_def main_menu_events_def)

lemma poll_count_simps [simp]:
  "poll_count main_menu_events = 0"
  "poll_count (status_events m) = 0"
  "poll_count [LCD_Clear_Display] = 0"
  "poll_count [Delay1ms n] = 0"
  by (simp_all add: poll_count_def main_menu_events_def status_events_def)

lemma poll_count_alert_events [simp]: "poll_count alert_events = 0"
  unfolding alert_events_def poll_count_append poll_count_cycles
  by (simp add: poll_count_def main_menu_events_def)

lemma Menu_Controller_step:
  assumes z: "Security_system_armed s = 0"
  shows "\<exists>s'. Menu_Controller b s = Some s' \<and>
           Security_system_armed s' = 0 \<and>
           uart_dr s' = uart_dr s \<and>
           main_alert_active s' = main_alert_active s \<and>
           poll_count (trace s') = poll_count (trace s) \<and>
           alert_count (trace s') =
             alert_count (trace s) + (if b = 1 \<and> last_button_status s \<noteq> 1 then 1 else 0) \<and>
           (main_system_armed s' \<noteq> main_system_armed s \<longrightarrow> b = 8 \<or> b = 4)"
proof -
  consider (same) "b = last_button_status s"
    | (arm) "b \<noteq> last_button_status s" "b = 8" "main_system_armed s = 0"
    | (armed) "b \<noteq> last_button_status s" "b = 8" "main_system_armed s \<noteq> 0"
    | (disarm) "b \<noteq> last_button_status s" "b = 4" "main_system_armed s \<noteq> 0"
    | (disarmed) "b \<noteq> last_button_status s" "b = 4" "main_system_armed s = 0"
    | (trigger) "b \<noteq> last_button_status s" "b = 1"
    | (redraw) "b \<noteq> last_button_status s" "b = 2"
    | (other) "b \<noteq> last_button_status s" "b \<noteq> 1" "b \<noteq> 2" "b \<noteq> 4" "b \<noteq> 8"
    by blast
  then show ?thesis
  proof cases
    case same
    then show ?thesis using z by (simp add: Menu_Controller_same)
  next
    case arm
    then show ?thesis using z by (simp add: Menu_Controller_arm)
  next
    case armed
    then show ?thesis using z by (simp add: Menu_Controller_already_armed)
  next
    case disarm
    then show ?thesis using z by (simp add: Menu_Controller_disarm)
  next
    case disarmed
    then show ?thesis using z by (simp add: Menu_Controller_already_disarmed)
  next
    case trigger
    then show ?thesis using z by (simp add: Menu_Controller_trigger)
  next
    case redraw
    then show ?thesis using z by (simp add: Menu_Controller_redraw)
  next
    case other
    then show ?thesis using z by (simp add: Menu_Controller_other)
  qed
qed

lemma main_loop_body_step:
  assumes z: "Security_system_armed s = 0"
  shows "\<exists>s'. main_loop_body b s = Some s' \<and>
           Security_system_armed s' = 0 \<and>
           uart_dr s' = uart_dr s \<and>
           main_alert_active s' = main_alert_active s \<and>
           poll_count (trace s') = poll_count (trace s) \<and>
           alert_count (trace s') =
             alert_count (trace s) + (if b = 1 \<and> last_button_status s \<noteq> 1 then 1 else 0) \<and>
           (main_system_armed s' \<noteq> main_system_armed s \<longrightarrow> b = 8 \<or> b = 4)"
proof -
  from Menu_Controller_step [OF z, of b] obtain s1 where
    "Menu_Controller b s = Some s1 \<and>
           Security_system_armed s1 = 0 \<and>
           uart_dr s1 = uart_dr s \<and>
           main_alert_active s1 = main_alert_active s \<and>
           poll_count (trace s1) = poll_count (trace s) \<and>
           alert_count (trace s1) =
             alert_count (trace s) + (if b = 1 \<and> last_button_status s \<noteq> 1 then 1 else 0) \<and>
           (main_system_armed s1 \<noteq> main_system_armed s \<longrightarrow> b = 8 \<or> b = 4)"
    by blast
  then show ?thesis
    by (simp add: main_loop_body_def SysTick_Delay1ms_def)
qed

lemma main_init_facts:
  "Security_system_armed (main_init sensor) = 0"
  "main_system_armed (main_init sensor) = 0"
  "main_alert_active (main_init sensor) = 0"
  "last_button_status (main_init sensor) = 0"
  "uart_dr (main_init sensor) = sensor"
  "poll_count (trace (main_init sensor)) = 0"
  "alert_count (trace (main_init sensor)) = 0"
  by (simp_all add: main_init_def Let_def Display_Main_Menu_emit SysTick_Delay1ms_def
        EduBase_LEDs_Output_def poll_count_def alert_count_def main_menu_events_def emit_def)


lemma reachable_Security_system_armed:
  "reachable s \<Longrightarrow> Security_system_armed s = 0 \<and> poll_count (trace s) = 0"
proof (induction rule: reachable.induct)
  case (reachable_init sensor)
  show ?case by (simp add: main_init_facts)
next
  case (reachable_step s b s')
  with main_loop_body_step [of s b] show ?case
    by auto
qed

lemma Menu_Controller_armed_last:
  assumes z: "Security_system_armed s = 0"
    and i: "main_system_armed s \<noteq> 0 \<longrightarrow> last_button_status s \<noteq> 4"
    and m: "Menu_Controller b s = Some s'"
  shows "main_system_armed s' \<noteq> 0 \<longrightarrow> last_button_status s' \<noteq> 4"
proof -
  consider (same) "b = last_button_status s"
    | (arm) "b \<noteq> last_button_status s" "b = 8" "main_system_armed s = 0"
    | (armed) "b \<noteq> last_button_status s" "b = 8" "main_system_armed s \<noteq> 0"
    | (disarm) "b \<noteq> last_button_status s" "b = 4" "main_system_armed s \<noteq> 0"
    | (disarmed) "b \<noteq> last_button_status s" "b = 4" "main_system_armed s = 0"
    | (trigger) "b \<noteq> last_button_status s" "b = 1"
    | (redraw) "b \<noteq> last_button_status s" "b = 2"
    | (other) "b \<noteq> last_button_status s" "b \<noteq> 1" "b \<noteq> 2" "b \<noteq> 4" "b \<noteq> 8"
    by blast
  then show ?thesis
  proof cases
    case same
    then show ?thesis using i m by (simp add: Menu_Controller_same)
  next
    case arm
    then show ?thesis using z m by (auto simp: Menu_Controller_arm)
  next
    case armed
    then show ?thesis using m by (auto simp: Menu_Controller_already_armed)
  next
    case disarm
    then show ?thesis using m by (auto simp: Menu_Controller_disarm)
  next
    case disarmed
    then show ?thesis using m by (auto simp: Menu_Controller_already_disarmed)
  next
    case trigger
    then show ?thesis using m by (auto simp: Menu_Controller_trigger)
  next
    case redraw
    then show ?thesis using m by (auto simp: Menu_Controller_redraw)
  next
    case other
    then show ?thesis using m by (auto simp: Menu_Controller_other)
  qed
qed

lemma reachable_armed_last:
  "reachable s \<Longrightarrow> main_system_armed s \<noteq> 0 \<longrightarrow> last_button_status s \<noteq> 4"
proof (induction rule: reachable.induct)
  case (reachable_init sensor)
  show ?case by (simp add: main_init_facts)
next
  case (reachable_step s b s')
  from reachable_step.hyps(2) obtain s1 where
    m: "Menu_Controller b s = Some s1" and s': "s' = SysTick_Delay1ms 10 s1"
    by (auto simp: main_loop_body_def split: option.splits)
  from reachable_step.hyps(1) have z: "Security_system_armed s = 0"
    by (simp add: reachable_Security_system_armed)
  from Menu_Controller_armed_last [OF z reachable_step.IH m] s'
  show ?case
    by (simp add: SysTick_Delay1ms_def)
qed



subsection \<open>Concrete runs from power-up\<close>

lemma boot_then_arm:
  "main_loop_body 8 (main_init sensor) =
     Some ((main_init sensor)
             \<lparr>main_system_armed := 1, last_button_status := 8, Security_alert_active := 0,
              trace := trace (main_init sensor) @ status_events ''System Armed''
                       @ main_menu_events @ main_menu_events @ [Delay1ms 10]\<rparr>)"
  by (simp add: main_loop_body_def Menu_Controller_arm main_init_facts SysTick_Delay1ms_def
        emit_def)

lemma reachable_boot_then_arm:
  "reachable (the (main_loop_body 8 (main_init sensor)))"
  using reachable_step [OF reachable_init boot_then_arm] by (simp add: boot_then_arm)

lemma boot_arm_release:
  "main_loop [0x08, 0x00] (main_init sensor) =
     Some ((main_init sensor)
             \<lparr>main_system_armed := 1, last_button_status := 0, Security_alert_active := 0,
              trace := trace (main_init sensor) @ status_events ''System Armed''
                       @ main_menu_events @ main_menu_events @ [Delay1ms 10, Delay1ms 10]\<rparr>)"
  by (simp add: main_loop_body_def Menu_Controller_arm Menu_Controller_other main_init_facts
        SysTick_Delay1ms_def emit_def)

lemma Menu_Controller_held:
  "Menu_Controller b s = Some s' \<Longrightarrow> Menu_Controller b s' = Some s'"
  by (simp add: Menu_Controller_last Menu_Controller_same)

subsection \<open>The alert sequence and the disarm command\<close>

text \<open>
  Whatever the state in which it starts, \<^verbatim>\<open>Intruder_Alert\<close> returns, and between call
  and return it does exactly this: it writes \<^verbatim>\<open>Intruder\<close> / \<^verbatim>\<open>Detected\<close> to the
  display and waits 3000 ms; ten times over it switches all LEDs on, plays A4 for 50 ms,
  waits 250 ms, switches all LEDs off, plays G4 for 50 ms and waits 250 ms; then it clears
  the two flags of \<^verbatim>\<open>Security.c\<close>, switches LEDs and buzzer off and redraws the main
  menu. The flags of \<^verbatim>\<open>main.c\<close> are out of its reach.
\<close>

lemma Intruder_Alert_choreography:
  "Intruder_Alert s =
     s\<lparr>Security_system_armed := 0, Security_alert_active := 0,
       trace := trace s
         @ [LCD_Clear_Display, LCD_Set_Cursor 0 0, LCD_Display_String ''Intruder'',
            LCD_Set_Cursor 0 1, LCD_Display_String ''Detected'', Delay1ms 3000]
         @ concat (replicate 10
             [LEDs_Output EDUBASE_LED_ALL_ON, Note_Played A4_NOTE 50, Delay1ms 250,
              LEDs_Output EDUBASE_LED_ALL_OFF, Note_Played G4_NOTE 50, Delay1ms 250])
         @ [LEDs_Output EDUBASE_LED_ALL_OFF, Buzzer_Level BUZZER_OFF,
            LCD_Clear_Display, LCD_Set_Cursor 0 0, LCD_Display_String ''Arm System'',
            LCD_Set_Cursor 0 1, LCD_Display_String ''Disarm System'']\<rparr>
   \<and> length (filter (\<lambda>e. e = Note_Played A4_NOTE 50)
         (drop (length (trace s)) (trace (Intruder_Alert s)))) = 10
   \<and> length (filter (\<lambda>e. e = Note_Played G4_NOTE 50)
         (drop (length (trace s)) (trace (Intruder_Alert s)))) = 10"
  by (simp add: Intruder_Alert_eq alert_events_def alert_cycle_events_def main_menu_events_def
        eval_nat_numeral)

lemma Intruder_Alert_main_system_armed:
  "main_system_armed (Intruder_Alert s) = main_system_armed s"
  by (simp add: Intruder_Alert_eq)

text \<open>
  In every reachable state in which the menu's flag says armed, the disarm button (mask
  \<open>0x04\<close>, which in such a state is never a repetition) clears that flag and shows
  \<^verbatim>\<open>System Disarmed\<close> and the main menu. It writes no flag of \<^verbatim>\<open>Security.c\<close>.
\<close>

lemma disarm_clears_main_system_armed:
  "reachable s \<Longrightarrow> main_system_armed s \<noteq> 0 \<Longrightarrow>
     Menu_Controller 0x04 s =
       Some (s\<lparr>main_system_armed := 0, last_button_status := 0x04,
               trace := trace s @ status_events ''System Disarmed'' @ main_menu_events\<rparr>)"
  using reachable_armed_last [of s] by (simp add: Menu_Controller_disarm)

section \<open>The claims\<close>

text \<open>
  C1, evaluated on the code. After power-up the arm button (mask \<open>0x08\<close>) is pressed
  while the sensor is ready to report the distance 30 (bytes \<open>0x00\<close>, \<open>0x1E\<close>). The
  menu's flag says armed, but no alert sequence was run and the sensor's answer was never
  fetched: \<^verbatim>\<open>System_Armed\<close> tests the \<^verbatim>\<open>system_armed\<close> of \<^verbatim>\<open>Security.c\<close>, which
  is still zero. (Had that flag been set, \<open>System_Armed_loop_breach\<close> shows that the
  loop alerts exactly once and stops.)
\<close>

theorem arm_then_intruder_in_range:
  "map_option (\<lambda>s. (main_system_armed s, alert_count (trace s), uart_dr s))
     (Menu_Controller 0x08 (main_init [0x00, 0x1E])) = Some (1, 0, [0x00, 0x1E])"
  by (simp add: Menu_Controller_arm main_init_facts)

text \<open>
  C2. In every state in which the main loop can begin a pass, the \<^verbatim>\<open>system_armed\<close> of
  \<^verbatim>\<open>Security.c\<close> is zero. From such a state every button reading, the arm command
  included, is handled to the end, leaves that flag zero, takes nothing from the sensor,
  sends it no command, and raises the number of alert sequences only when it is the manual
  trigger. Wherever that flag is zero, the loop of \<^verbatim>\<open>System_Armed\<close> makes no pass and
  \<^verbatim>\<open>System_Armed\<close> only clears its alert flag and draws the main menu; the one
  assignment to the flag in the program, in \<^verbatim>\<open>Intruder_Alert\<close>, stores zero.
\<close>

theorem Security_system_armed_never_set:
  "reachable s \<Longrightarrow>
     Security_system_armed s = 0 \<and>
     (\<forall>b. \<exists>s'. Menu_Controller b s = Some s' \<and>
            Security_system_armed s' = 0 \<and>
            uart_dr s' = uart_dr s \<and>
            poll_count (trace s') = 0 \<and>
            alert_count (trace s') =
              alert_count (trace s) + (if b = 1 \<and> last_button_status s \<noteq> 1 then 1 else 0)) \<and>
     (\<forall>t. Security_system_armed t = 0 \<longrightarrow>
            System_Armed_loop (t\<lparr>Security_alert_active := 0\<rparr>)
              = Some (t\<lparr>Security_alert_active := 0\<rparr>) \<and>
            System_Armed t
              = Some (t\<lparr>Security_alert_active := 0, trace := trace t @ main_menu_events\<rparr>) \<and>
            Security_system_armed (Intruder_Alert t) = 0)"
proof (intro conjI allI impI)
  assume r: "reachable s"
  then show z: "Security_system_armed s = 0"
    by (simp add: reachable_Security_system_armed)
  fix b
  from Menu_Controller_step [OF z, of b] reachable_Security_system_armed [OF r]
  show "\<exists>s'. Menu_Controller b s = Some s' \<and>
            Security_system_armed s' = 0 \<and>
            uart_dr s' = uart_dr s \<and>
            poll_count (trace s') = 0 \<and>
            alert_count (trace s') =
              alert_count (trace s) + (if b = 1 \<and> last_button_status s \<noteq> 1 then 1 else 0)"
    by auto
next
  fix t :: machine
  assume "Security_system_armed t = 0"
  then show "System_Armed_loop (t\<lparr>Security_alert_active := 0\<rparr>)
              = Some (t\<lparr>Security_alert_active := 0\<rparr>)"
    by (simp add: System_Armed_loop_idle)
next
  fix t :: machine
  assume "Security_system_armed t = 0"
  then show "System_Armed t
              = Some (t\<lparr>Security_alert_active := 0, trace := trace t @ main_menu_events\<rparr>)"
    by (simp add: System_Armed_idle Display_Main_Menu_emit emit_def)
next
  fix t :: machine
  show "Security_system_armed (Intruder_Alert t) = 0"
    by (simp add: Intruder_Alert_eq)
qed

text \<open>The state reached by pressing arm after power-up is such a state.\<close>

theorem Security_system_armed_never_set_witness:
  "reachable (the (main_loop_body 8 (main_init [0x00, 0x1E]))) \<and>
   main_system_armed (the (main_loop_body 8 (main_init [0x00, 0x1E]))) = 1 \<and>
   Security_system_armed (the (main_loop_body 8 (main_init [0x00, 0x1E]))) = 0"
proof -
  have r: "reachable (the (main_loop_body 8 (main_init [0x00, 0x1E])))"
    by (rule reachable_boot_then_arm)
  from Security_system_armed_never_set [OF r]
  have "Security_system_armed (the (main_loop_body 8 (main_init [0x00, 0x1E]))) = 0"
    by blast
  moreover have "main_system_armed (the (main_loop_body 8 (main_init [0x00, 0x1E]))) = 1"
    by (simp add: boot_then_arm)
  ultimately show ?thesis
    using r by blast
qed

text \<open>
  C3, evaluated on the code. After power-up the arm button is pressed and released,
  while the sensor is ready to report the distance 200 (bytes \<open>0x00\<close>, \<open>0xC8\<close>). Three
  passes of the main loop later the menu's flag says armed, the read-distance command has
  not been transmitted once and the sensor's answer is still waiting. (Had the flag of
  \<^verbatim>\<open>Security.c\<close> been set, \<open>System_Armed_loop_clear\<close> shows that the loop takes the
  reading, waits 100 ms and polls again.)
\<close>

theorem arm_then_no_polling:
  "map_option (\<lambda>s. (main_system_armed s, poll_count (trace s), uart_dr s))
     (main_loop [0x08, 0x00, 0x00] (main_init [0x00, 0xC8])) = Some (1, 0, [0x00, 0xC8])"
  by (simp add: main_loop_body_def Menu_Controller_arm Menu_Controller_other Menu_Controller_same
        main_init_facts SysTick_Delay1ms_def)

text \<open>
  C4, evaluated on the code. The choreography itself is as claimed
  (\<open>Intruder_Alert_choreography\<close>), but the alert sequence does not leave the system
  disarmed. After power-up the arm button is pressed and released, the manual trigger is
  pressed and released, and the arm button is pressed again. One alert sequence has run to
  its end, the menu's flag still says armed, and the second arm command was answered with
  \<^verbatim>\<open>Already Armed\<close>: the assignment \<^verbatim>\<open>system_armed = 0\<close> in \<^verbatim>\<open>Intruder_Alert\<close>
  clears the static of \<^verbatim>\<open>Security.c\<close>, not the one the menu tests.
\<close>

theorem alert_does_not_disarm_menu:
  "map_option
     (\<lambda>s. (main_system_armed s, alert_count (trace s),
           LCD_Display_String ''Already Armed'' \<in> set (trace s)))
     (main_loop [0x08, 0x00, 0x01, 0x00, 0x08] (main_init [])) = Some (1, 1, True)"
  by (simp add: main_loop_body_def Menu_Controller_arm Menu_Controller_other
        Menu_Controller_trigger Menu_Controller_already_armed main_init_facts
        SysTick_Delay1ms_def status_events_def)

text \<open>
  C5, evaluated on the code. After power-up the arm button is pressed and released; the
  menu's flag says armed and no alert has run. Then the manual trigger is pressed: the
  alert sequence is entered from the armed state, runs once, and on return the menu's flag
  still says armed.
\<close>

theorem alert_from_Armed_exits_Armed:
  "map_option (\<lambda>s. (main_system_armed s, alert_count (trace s)))
     (main_loop [0x08, 0x00] (main_init [])) = Some (1, 0) \<and>
   map_option (\<lambda>s. (main_system_armed s, alert_count (trace s)))
     (main_loop [0x08, 0x00, 0x01] (main_init [])) = Some (1, 1)"
  by (simp add: main_loop_body_def Menu_Controller_arm Menu_Controller_other
        Menu_Controller_trigger main_init_facts SysTick_Delay1ms_def)

text \<open>
  C6. \<^verbatim>\<open>Get_Distance\<close> transmits the single command byte \<open>0x55\<close>, then takes
  exactly two bytes from the receiver, and returns the first byte shifted left by eight
  bits or-ed with the second, a 16-bit unsigned value equal to 256 times the first byte
  plus the second. Nothing is validated: the error bits of the data register are masked
  away and every pair of bytes is accepted. There is no timeout: with fewer than two
  bytes to come the function never returns.
\<close>

theorem Get_Distance_big_endian:
  "Get_Distance (s\<lparr>uart_dr := d1 # d2 # rest\<rparr>) =
     Some (push_bit 8 (ucast (ucast (d1 AND 0xFF) :: uint8_t))
             OR ucast (ucast (d2 AND 0xFF) :: uint8_t),
           s\<lparr>uart_dr := rest,
              trace := trace s @ [UART1_Tx 0x55, UART1_Rx (ucast (d1 AND 0xFF)),
                                  UART1_Rx (ucast (d2 AND 0xFF))]\<rparr>)
   \<and> unat (push_bit 8 (ucast firstByte) OR ucast secondByte :: uint16_t)
       = 256 * unat (firstByte :: uint8_t) + unat (secondByte :: uint8_t)
   \<and> Get_Distance (s\<lparr>uart_dr := [d1]\<rparr>) = None
   \<and> Get_Distance (s\<lparr>uart_dr := []\<rparr>) = None"
  by (simp add: Get_Distance_two assemble_16_unat Get_Distance_short)

text \<open>
  C7. The manual trigger (mask \<open>0x01\<close>, not a repetition) calls \<^verbatim>\<open>Intruder_Alert\<close>
  whatever the armed flags are; the call returns after the complete alert sequence, one
  sequence, with the armed flag of \<^verbatim>\<open>Security.c\<close> zero. Issued while disarmed, it
  ends disarmed.
\<close>

theorem manual_trigger_not_gated:
  "last_button_status s \<noteq> 0x01 \<Longrightarrow>
     Menu_Controller 0x01 s = Some (Intruder_Alert (s\<lparr>last_button_status := 0x01\<rparr>)) \<and>
     trace (Intruder_Alert (s\<lparr>last_button_status := 0x01\<rparr>)) = trace s @ alert_events \<and>
     alert_count alert_events = 1 \<and>
     Security_system_armed (Intruder_Alert (s\<lparr>last_button_status := 0x01\<rparr>)) = 0 \<and>
     (main_system_armed s = 0 \<longrightarrow>
        main_system_armed (Intruder_Alert (s\<lparr>last_button_status := 0x01\<rparr>)) = 0)"
  by (simp add: Menu_Controller_trigger Intruder_Alert_eq)

text \<open>The manual trigger right after power-up, when the system is disarmed.\<close>

theorem manual_trigger_not_gated_witness:
  "last_button_status (main_init []) \<noteq> 0x01 \<and>
   main_system_armed (main_init []) = 0 \<and>
   Menu_Controller 0x01 (main_init []) =
     Some (Intruder_Alert ((main_init [])\<lparr>last_button_status := 0x01\<rparr>)) \<and>
   main_system_armed (Intruder_Alert ((main_init [])\<lparr>last_button_status := 0x01\<rparr>)) = 0 \<and>
   Security_system_armed (Intruder_Alert ((main_init [])\<lparr>last_button_status := 0x01\<rparr>)) = 0"
proof -
  have h: "last_button_status (main_init []) \<noteq> 0x01"
    by (simp add: main_init_facts)
  from manual_trigger_not_gated [OF h] h show ?thesis
    by (simp add: main_init_facts)
qed


text \<open>
  C9. The arm command while the menu's flag says armed changes no flag and shows
  \<^verbatim>\<open>Already Armed\<close> for 3000 ms, then the main menu; the disarm command while the flag
  says disarmed changes no flag and shows \<^verbatim>\<open>Already Disarmed\<close> for 3000 ms, then the
  main menu. Only the remembered button mask and the display change.
\<close>

theorem redundant_command_is_noop:
  "(main_system_armed s \<noteq> 0 \<and> last_button_status s \<noteq> 0x08 \<longrightarrow>
      Menu_Controller 0x08 s =
        Some (s\<lparr>last_button_status := 0x08,
                trace := trace s
                  @ [LCD_Clear_Display, LCD_Set_Cursor 0 0, LCD_Display_String ''Already Armed'',
                     Delay1ms 3000]
                  @ main_menu_events\<rparr>)) \<and>
   (main_system_armed s = 0 \<and> last_button_status s \<noteq> 0x04 \<longrightarrow>
      Menu_Controller 0x04 s =
        Some (s\<lparr>last_button_status := 0x04,
                trace := trace s
                  @ [LCD_Clear_Display, LCD_Set_Cursor 0 0, LCD_Display_String ''Already Disarmed'',
                     Delay1ms 3000]
                  @ main_menu_events\<rparr>))"
  by (simp add: Menu_Controller_already_armed Menu_Controller_already_disarmed status_events_def)

text \<open>Arming twice after power-up, and disarming right after power-up.\<close>

theorem redundant_command_is_noop_witness:
  "main_system_armed (the (main_loop [0x08, 0x00] (main_init []))) \<noteq> 0 \<and>
   last_button_status (the (main_loop [0x08, 0x00] (main_init []))) \<noteq> 0x08 \<and>
   map_option main_system_armed
     (Menu_Controller 0x08 (the (main_loop [0x08, 0x00] (main_init [])))) = Some 1 \<and>
   main_system_armed (main_init []) = 0 \<and>
   last_button_status (main_init []) \<noteq> 0x04 \<and>
   map_option main_system_armed (Menu_Controller 0x04 (main_init [])) = Some 0"
proof -
  define a where "a = the (main_loop [0x08, 0x00] (main_init []))"
  have a1: "main_system_armed a = 1" and a2: "last_button_status a = 0"
    unfolding a_def by (simp_all only: boot_arm_release option.sel) simp_all
  have a: "main_system_armed a \<noteq> 0 \<and> last_button_status a \<noteq> 0x08"
    by (simp add: a1 a2)
  have d: "main_system_armed (main_init []) = 0 \<and> last_button_status (main_init []) \<noteq> 0x04"
    by (simp add: main_init_facts)
  from redundant_command_is_noop [of a] a
  have 1: "map_option main_system_armed (Menu_Controller 0x08 a) = Some 1"
    by (simp add: a1)
  from redundant_command_is_noop [of "main_init []"] d
  have 2: "map_option main_system_armed (Menu_Controller 0x04 (main_init [])) = Some 0"
    by simp
  from a d 1 2 show ?thesis
    unfolding a_def by blast
qed

text \<open>
  C10. A button mask equal to the one seen last does nothing at all, so a mask that is
  held is acted on once. A different mask is remembered; it is acted on only when it is
  exactly \<open>0x01\<close> (alert sequence), \<open>0x02\<close> (redraw), \<open>0x04\<close> (disarm) or
  \<open>0x08\<close> (arm), and any other value has no further effect.
\<close>

theorem buttons_edge_triggered_one_hot:
  "(b = last_button_status s \<longrightarrow> Menu_Controller b s = Some s) \<and>
   (Menu_Controller b s = Some s' \<longrightarrow> Menu_Controller b s' = Some s') \<and>
   (b \<noteq> last_button_status s \<and> b \<noteq> 0x01 \<and> b \<noteq> 0x02 \<and> b \<noteq> 0x04 \<and> b \<noteq> 0x08 \<longrightarrow>
      Menu_Controller b s = Some (s\<lparr>last_button_status := b\<rparr>)) \<and>
   (last_button_status s \<noteq> 0x01 \<longrightarrow>
      Menu_Controller 0x01 s = Some (Intruder_Alert (s\<lparr>last_button_status := 0x01\<rparr>))) \<and>
   (last_button_status s \<noteq> 0x02 \<longrightarrow>
      Menu_Controller 0x02 s =
        Some (SysTick_Delay1ms 20 (Display_Main_Menu (EduBase_LCD_Clear_Display
                (s\<lparr>last_button_status := 0x02\<rparr>))))) \<and>
   (last_button_status s \<noteq> 0x04 \<longrightarrow>
      Menu_Controller 0x04 s =
        Some (Display_Main_Menu
               (if main_system_armed s \<noteq> 0
                then Display_Status ''System Disarmed''
                       (s\<lparr>last_button_status := 0x04, main_system_armed := 0\<rparr>)
                else Display_Status ''Already Disarmed'' (s\<lparr>last_button_status := 0x04\<rparr>)))) \<and>
   (last_button_status s \<noteq> 0x08 \<longrightarrow>
      Menu_Controller 0x08 s =
        (if main_system_armed s = 0
         then map_option Display_Main_Menu
                (System_Armed (Display_Status ''System Armed''
                   (s\<lparr>last_button_status := 0x08, main_system_armed := 1\<rparr>)))
         else Some (Display_Main_Menu
                (Display_Status ''Already Armed'' (s\<lparr>last_button_status := 0x08\<rparr>)))))"
proof (intro conjI impI)
  show "Menu_Controller b s = Some s" if "b = last_button_status s"
    using that by (rule Menu_Controller_same)
  show "Menu_Controller b s' = Some s'" if "Menu_Controller b s = Some s'"
    using that by (rule Menu_Controller_held)
  show "Menu_Controller b s = Some (s\<lparr>last_button_status := b\<rparr>)"
    if "b \<noteq> last_button_status s \<and> b \<noteq> 0x01 \<and> b \<noteq> 0x02 \<and> b \<noteq> 0x04 \<and> b \<noteq> 0x08"
    using that by (simp add: Menu_Controller_other)
  show "Menu_Controller 0x01 s = Some (Intruder_Alert (s\<lparr>last_button_status := 0x01\<rparr>))"
    if "last_button_status s \<noteq> 0x01"
    using that by (simp add: Menu_Controller_def Let_def)
  show "Menu_Controller 0x02 s =
        Some (SysTick_Delay1ms 20 (Display_Main_Menu (EduBase_LCD_Clear_Display
                (s\<lparr>last_button_status := 0x02\<rparr>))))"
    if "last_button_status s \<noteq> 0x02"
    using that by (simp add: Menu_Controller_def Let_def)
  show "Menu_Controller 0x04 s =
        Some (Display_Main_Menu
               (if main_system_armed s \<noteq> 0
                then Display_Status ''System Disarmed''
                       (s\<lparr>last_button_status := 0x04, main_system_armed := 0\<rparr>)
                else Display_Status ''Already Disarmed'' (s\<lparr>last_button_status := 0x04\<rparr>)))"
    if "last_button_status s \<noteq> 0x04"
    using that by (simp add: Menu_Controller_def Let_def)
  show "Menu_Controller 0x08 s =
        (if main_system_armed s = 0
         then map_option Display_Main_Menu
                (System_Armed (Display_Status ''System Armed''
                   (s\<lparr>last_button_status := 0x08, main_system_armed := 1\<rparr>)))
         else Some (Display_Main_Menu
                (Display_Status ''Already Armed'' (s\<lparr>last_button_status := 0x08\<rparr>))))"
    if "last_button_status s \<noteq> 0x08"
    using that by (simp add: Menu_Controller_def Let_def split: option.splits)
qed

text \<open>Holding arm after power-up, two buttons at once, and no button.\<close>

theorem buttons_edge_triggered_one_hot_witness:
  "Menu_Controller 0x08 (main_init []) = Some (the (Menu_Controller 0x08 (main_init []))) \<and>
   Menu_Controller 0x08 (the (Menu_Controller 0x08 (main_init [])))
     = Some (the (Menu_Controller 0x08 (main_init []))) \<and>
   Menu_Controller 0x03 (main_init []) = Some ((main_init [])\<lparr>last_button_status := 0x03\<rparr>) \<and>
   Menu_Controller 0x00 (main_init []) = Some (main_init [])"
proof -
  have e: "Menu_Controller 0x08 (main_init []) = Some (the (Menu_Controller 0x08 (main_init [])))"
    by (simp add: Menu_Controller_arm main_init_facts)
  have l: "last_button_status (main_init []) = 0"
    by (simp add: main_init_facts)
  from buttons_edge_triggered_one_hot
         [of "0x08" "main_init []" "the (Menu_Controller 0x08 (main_init []))"] e
  have 1: "Menu_Controller 0x08 (the (Menu_Controller 0x08 (main_init [])))
     = Some (the (Menu_Controller 0x08 (main_init [])))"
    by blast
  from buttons_edge_triggered_one_hot [of "0x03" "main_init []"] l
  have 2: "Menu_Controller 0x03 (main_init []) = Some ((main_init [])\<lparr>last_button_status := 0x03\<rparr>)"
    by simp
  from buttons_edge_triggered_one_hot [of "0x00" "main_init []"] l
  have 3: "Menu_Controller 0x00 (main_init []) = Some (main_init [])"
    by simp
  from e 1 2 3 show ?thesis
    by blast
qed

end
